theory Spec2Isabelle
  imports Complex_Main "HOL-Library.Sublist" "HOL-Library.Monad_Syntax"
begin

section \<open>Navigation: header visibility on scroll\<close>

text \<open>
  \<^verbatim>\<open>Navigation.setupScroll\<close> (src/app.js, lines 150-170) keeps one closure variable,
  \<^verbatim>\<open>lastScroll\<close>, and writes the inline style \<^verbatim>\<open>transform\<close> of the navbar element.
  The state of the handler is these two values. Scroll offsets (\<^verbatim>\<open>window.pageYOffset\<close>)
  are JavaScript numbers; they are only compared here, so they are modelled as reals.
\<close>

record scroll_state =
  lastScroll :: real
  transform :: string

definition setupScroll_init :: "string \<Rightarrow> scroll_state" where
  "setupScroll_init t0 = \<lparr>lastScroll = 0, transform = t0\<rparr>"

definition setupScroll_listener :: "real \<Rightarrow> scroll_state \<Rightarrow> scroll_state" where
  "setupScroll_listener currentScroll s =
     (if currentScroll \<le> 0 then s\<lparr>transform := ''translateY(0)''\<rparr>
      else
        (let s1 = (if currentScroll > lastScroll s \<and> currentScroll > 100
                   then s\<lparr>transform := ''translateY(-100%)''\<rparr>
                   else s\<lparr>transform := ''translateY(0)''\<rparr>)
         in s1\<lparr>lastScroll := currentScroll\<rparr>))"

text \<open>The header styles observed after each event of a sequence of scroll events.\<close>

fun scroll_trace :: "scroll_state \<Rightarrow> real list \<Rightarrow> string list" where
  "scroll_trace s [] = []"
| "scroll_trace s (c # cs) =
     (let s' = setupScroll_listener c s in transform s' # scroll_trace s' cs)"

text \<open>The state after a sequence of scroll events.\<close>

definition scroll_run :: "real list \<Rightarrow> scroll_state \<Rightarrow> scroll_state" where
  "scroll_run cs s = fold setupScroll_listener cs s"

section \<open>Records and their markup\<close>

text \<open>
  \<^verbatim>\<open>class Model\<close> (lines 33-45) holds one field, \<^verbatim>\<open>data\<close>; the three record
  classes extend it and pass an object of their constructor arguments to \<^verbatim>\<open>super\<close>.
  This section is the value view of a record: \<open>'d Model\<close> is the content of a record
  object at one moment, with string fields, and each \<^verbatim>\<open>toHTML\<close> is the markup of that
  content. The objects themselves, with their identity, are in the section on the store
  below. JavaScript strings are modelled as \<^typ>\<open>string\<close>; the template literals are
  copied from the source with their line breaks and indentation.
\<close>

record 'd Model =
  data :: 'd

definition Model_constructor :: "'d \<Rightarrow> 'd Model" where
  "Model_constructor d = \<lparr>data = d\<rparr>"

definition getData :: "'d Model \<Rightarrow> 'd" where
  "getData m = data m"

record skill_data =
  skill_name :: string
  skill_description :: string
  skill_icon :: string

record portfolio_data =
  item_title :: string
  item_description :: string
  item_tags :: "string list"
  item_image :: "string option"

record timeline_data =
  tl_date :: string
  tl_title :: string
  tl_company :: string
  tl_description :: string

definition Skill :: "string \<Rightarrow> string \<Rightarrow> string \<Rightarrow> skill_data Model" where
  "Skill name description icon =
     Model_constructor \<lparr>skill_name = name, skill_description = description, skill_icon = icon\<rparr>"

definition PortfolioItem ::
  "string \<Rightarrow> string \<Rightarrow> string list \<Rightarrow> string option \<Rightarrow> portfolio_data Model" where
  "PortfolioItem title description tags img =
     Model_constructor \<lparr>item_title = title, item_description = description,
                        item_tags = tags, item_image = img\<rparr>"

definition TimelineItem ::
  "string \<Rightarrow> string \<Rightarrow> string \<Rightarrow> string \<Rightarrow> timeline_data Model" where
  "TimelineItem date title company description =
     Model_constructor \<lparr>tl_date = date, tl_title = title, tl_company = company,
                        tl_description = description\<rparr>"

text \<open>\<^verbatim>\<open>Array.prototype.join\<close> on an array of strings.\<close>

fun join :: "string \<Rightarrow> string list \<Rightarrow> string" where
  "join sep [] = []"
| "join sep [x] = x"
| "join sep (x # y # ys) = x @ sep @ join sep (y # ys)"

definition Skill_toHTML :: "skill_data Model \<Rightarrow> string" where
  \<open>Skill_toHTML this =
     (let d = data this in
        ''\<newline>'' @
        ''            <div class="skill-card fade-in">\<newline>'' @
        ''                <div class="skill-icon">'' @
        skill_icon d @
        ''</div>\<newline>'' @
        ''                <h3 class="skill-name">'' @
        skill_name d @
        ''</h3>\<newline>'' @
        ''                <p class="skill-description">'' @
        skill_description d @
        ''</p>\<newline>'' @
        ''            </div>\<newline>'' @
        ''        '')\<close>

definition portfolio_tag :: "string \<Rightarrow> string" where
  \<open>portfolio_tag tag =
        ''<span class="portfolio-tag">'' @
        tag @
        ''</span>''\<close>

definition PortfolioItem_toHTML :: "portfolio_data Model \<Rightarrow> string" where
  \<open>PortfolioItem_toHTML this =
     (let d = data this;
          tagsHTML = join [] (map portfolio_tag (item_tags d))
      in
        ''\<newline>'' @
        ''            <div class="portfolio-item fade-in">\<newline>'' @
        ''                <div class="portfolio-image">\<newline>'' @
        ''                    <svg viewBox="0 0 24 24" fill="none" stroke="currentColor" stroke-width="2">\<newline>'' @
        ''                        <rect x="3" y="3" width="18" height="18" rx="2"/>\<newline>'' @
        ''                        <circle cx="8.5" cy="8.5" r="1.5"/>\<newline>'' @
        ''                        <path d="M21 15l-5-5L5 21"/>\<newline>'' @
        ''                    </svg>\<newline>'' @
        ''                </div>\<newline>'' @
        ''                <div class="portfolio-content">\<newline>'' @
        ''                    <h3 class="portfolio-title">'' @
        item_title d @
        ''</h3>\<newline>'' @
        ''                    <p class="portfolio-description">'' @
        item_description d @
        ''</p>\<newline>'' @
        ''                    <div class="portfolio-tags">'' @
        tagsHTML @
        ''</div>\<newline>'' @
        ''                </div>\<newline>'' @
        ''            </div>\<newline>'' @
        ''        '')\<close>

definition TimelineItem_toHTML :: "timeline_data Model \<Rightarrow> string" where
  \<open>TimelineItem_toHTML this =
     (let d = data this in
        ''\<newline>'' @
        ''            <div class="timeline-item slide-in-left">\<newline>'' @
        ''                <div class="timeline-date">'' @
        tl_date d @
        ''</div>\<newline>'' @
        ''                <h3 class="timeline-title">'' @
        tl_title d @
        ''</h3>\<newline>'' @
        ''                <div class="timeline-company">'' @
        tl_company d @
        ''</div>\<newline>'' @
        ''                <p class="timeline-description">'' @
        tl_description d @
        ''</p>\<newline>'' @
        ''            </div>\<newline>'' @
        ''        '')\<close>

section \<open>Record objects in the store\<close>

text \<open>
  Objects have identity: \<^verbatim>\<open>getData\<close> returns the very object a record holds, and a
  portfolio item keeps the tags array it was given. The store is a list of objects,
  addressed by position. A value is \<^verbatim>\<open>undefined\<close>, \<^verbatim>\<open>null\<close>, a string or a
  reference. An object is an instance of \<^verbatim>\<open>Model\<close> or of a class extending it (its
  \<^verbatim>\<open>data\<close> property), an object literal (its properties in order) or an array of
  strings. An address outside the store has no counterpart in JavaScript; reading through
  it is reported as a TypeError.
\<close>

text \<open>The exceptions the modelled code can raise.\<close>

datatype js_error = TypeError | SyntaxError

datatype js_value = JUndefined | JNull | JStr string | JRef nat

datatype object =
    ModelObj js_value
  | DataObj "(string \<times> js_value) list"
  | ArrayObj "string list"

type_synonym heap = "object list"

definition alloc :: "object \<Rightarrow> heap \<Rightarrow> nat \<times> heap" where
  "alloc obj h = (length h, h @ [obj])"

definition lookup :: "heap \<Rightarrow> nat \<Rightarrow> object option" where
  "lookup h a = (if a < length h then Some (h ! a) else None)"

text \<open>
  Reading the property \<open>name\<close> of a value, for the property names the program reads
  (\<^verbatim>\<open>data\<close>, \<^verbatim>\<open>icon\<close>, \<^verbatim>\<open>name\<close>, \<^verbatim>\<open>description\<close>, \<^verbatim>\<open>title\<close>, \<^verbatim>\<open>tags\<close>,
  \<^verbatim>\<open>date\<close>, \<^verbatim>\<open>company\<close>; none of them is inherited from a prototype): a TypeError
  on \<^verbatim>\<open>undefined\<close> and \<^verbatim>\<open>null\<close>, \<^verbatim>\<open>undefined\<close> where the property is missing.
\<close>

definition get_prop :: "heap \<Rightarrow> js_value \<Rightarrow> string \<Rightarrow> js_error + js_value" where
  "get_prop h v name =
     (case v of
        JUndefined \<Rightarrow> Inl TypeError
      | JNull \<Rightarrow> Inl TypeError
      | JStr s \<Rightarrow> Inr JUndefined
      | JRef a \<Rightarrow>
          (case lookup h a of
             None \<Rightarrow> Inl TypeError
           | Some (ModelObj d) \<Rightarrow> Inr (if name = ''data'' then d else JUndefined)
           | Some (DataObj fs) \<Rightarrow>
               Inr (case map_of fs name of None \<Rightarrow> JUndefined | Some x \<Rightarrow> x)
           | Some (ArrayObj xs) \<Rightarrow> Inr JUndefined))"

text \<open>The string a template literal inserts for a value.\<close>

definition toStr :: "heap \<Rightarrow> js_value \<Rightarrow> string" where
  "toStr h v =
     (case v of
        JUndefined \<Rightarrow> ''undefined''
      | JNull \<Rightarrow> ''null''
      | JStr s \<Rightarrow> s
      | JRef a \<Rightarrow>
          (case lookup h a of
             Some (ArrayObj xs) \<Rightarrow> join '','' xs
           | _ \<Rightarrow> ''[object Object]''))"

text \<open>
  The constructor and the two methods of \<^verbatim>\<open>Model\<close> (lines 34-44), and the constructors of
  the record classes (lines 55-57, 74-76, 106-108): each allocates the object literal it
  passes to \<^verbatim>\<open>super\<close>, then the instance. A method takes the address of \<^verbatim>\<open>this\<close> and
  the store, and returns its result with the store it leaves.
\<close>

definition Model_new :: "js_value \<Rightarrow> heap \<Rightarrow> nat \<times> heap" where
  "Model_new d h = alloc (ModelObj d) h"

definition Model_getData :: "nat \<Rightarrow> heap \<Rightarrow> (js_error + js_value) \<times> heap" where
  "Model_getData this h = (get_prop h (JRef this) ''data'', h)"

definition Model_setData :: "nat \<Rightarrow> js_value \<Rightarrow> heap \<Rightarrow> heap" where
  "Model_setData this d h =
     (case lookup h this of Some (ModelObj old) \<Rightarrow> h[this := ModelObj d] | _ \<Rightarrow> h)"

definition Skill_new :: "js_value \<Rightarrow> js_value \<Rightarrow> js_value \<Rightarrow> heap \<Rightarrow> nat \<times> heap" where
  "Skill_new name description icon h =
     (let (d, h1) = alloc (DataObj [(''name'', name), (''description'', description),
                                     (''icon'', icon)]) h
      in Model_new (JRef d) h1)"

definition PortfolioItem_new ::
  "js_value \<Rightarrow> js_value \<Rightarrow> js_value \<Rightarrow> js_value \<Rightarrow> heap \<Rightarrow> nat \<times> heap" where
  "PortfolioItem_new title description tags img h =
     (let (d, h1) = alloc (DataObj [(''title'', title), (''description'', description),
                                     (''tags'', tags), (''image'', img)]) h
      in Model_new (JRef d) h1)"

definition TimelineItem_new ::
  "js_value \<Rightarrow> js_value \<Rightarrow> js_value \<Rightarrow> js_value \<Rightarrow> heap \<Rightarrow> nat \<times> heap" where
  "TimelineItem_new date title company description h =
     (let (d, h1) = alloc (DataObj [(''date'', date), (''title'', title), (''company'', company),
                                     (''description'', description)]) h
      in Model_new (JRef d) h1)"

text \<open>
  \<^verbatim>\<open>new PortfolioItem(title, description, [...], image)\<close> as written in
  \<^verbatim>\<open>getPortfolioData\<close> (lines 453-488): the array literal is allocated, then passed.
\<close>

definition PortfolioItem_of_literal ::
  "js_value \<Rightarrow> js_value \<Rightarrow> string list \<Rightarrow> js_value \<Rightarrow> heap \<Rightarrow> nat \<times> heap" where
  "PortfolioItem_of_literal title description tags img h =
     (let (a, h1) = alloc (ArrayObj tags) h
      in PortfolioItem_new title description (JRef a) img h1)"

text \<open>
  The three \<^verbatim>\<open>toHTML\<close> methods on the store: they read \<^verbatim>\<open>this.data\<close> and its
  properties, and insert them in the template of the value view. \<^verbatim>\<open>PortfolioItem.toHTML\<close>
  calls \<^verbatim>\<open>map\<close> on \<^verbatim>\<open>this.data.tags\<close> first, a TypeError unless it is an array.
\<close>

definition Skill_toHTML_call :: "nat \<Rightarrow> heap \<Rightarrow> (js_error + string) \<times> heap" where
  "Skill_toHTML_call this h =
     (case get_prop h (JRef this) ''data'' of
        Inl err \<Rightarrow> (Inl err, h)
      | Inr d \<Rightarrow>
          (case (get_prop h d ''icon'', get_prop h d ''name'', get_prop h d ''description'') of
             (Inr icon, Inr name, Inr description) \<Rightarrow>
               (Inr (Skill_toHTML (Skill (toStr h name) (toStr h description) (toStr h icon))), h)
           | _ \<Rightarrow> (Inl TypeError, h)))"

definition PortfolioItem_toHTML_call :: "nat \<Rightarrow> heap \<Rightarrow> (js_error + string) \<times> heap" where
  "PortfolioItem_toHTML_call this h =
     (case get_prop h (JRef this) ''data'' of
        Inl err \<Rightarrow> (Inl err, h)
      | Inr d \<Rightarrow>
          (case (get_prop h d ''tags'', get_prop h d ''title'', get_prop h d ''description'') of
             (Inr (JRef a), Inr title, Inr description) \<Rightarrow>
               (case lookup h a of
                  Some (ArrayObj tags) \<Rightarrow>
                    (Inr (PortfolioItem_toHTML
                            (PortfolioItem (toStr h title) (toStr h description) tags None)), h)
                | _ \<Rightarrow> (Inl TypeError, h))
           | _ \<Rightarrow> (Inl TypeError, h)))"

definition TimelineItem_toHTML_call :: "nat \<Rightarrow> heap \<Rightarrow> (js_error + string) \<times> heap" where
  "TimelineItem_toHTML_call this h =
     (case get_prop h (JRef this) ''data'' of
        Inl err \<Rightarrow> (Inl err, h)
      | Inr d \<Rightarrow>
          (case (get_prop h d ''date'', get_prop h d ''title'', get_prop h d ''company'',
                 get_prop h d ''description'') of
             (Inr date, Inr title, Inr company, Inr description) \<Rightarrow>
               (Inr (TimelineItem_toHTML
                       (TimelineItem (toStr h date) (toStr h title) (toStr h company)
                          (toStr h description))), h)
           | _ \<Rightarrow> (Inl TypeError, h)))"

text \<open>
  What the program does with records: \<^verbatim>\<open>getSkillsData\<close>, \<^verbatim>\<open>getPortfolioData\<close> and
  \<^verbatim>\<open>getTimelineData\<close> construct them (lines 416-519), and the \<^verbatim>\<open>render\<close> methods call
  \<^verbatim>\<open>toHTML\<close> on each (lines 207, 244, 281). The names \<^verbatim>\<open>getData\<close> and \<^verbatim>\<open>setData\<close>
  occur in the program only where they are defined, and no event handler, observer or
  timer callback holds a reference to a record. \<open>app_run\<close> is the store after a
  sequence of such calls.
\<close>

datatype app_call =
    NewSkill js_value js_value js_value
  | NewPortfolioItem js_value js_value "string list" js_value
  | NewTimelineItem js_value js_value js_value js_value
  | SkillToHTML nat
  | PortfolioItemToHTML nat
  | TimelineItemToHTML nat

fun app_step :: "app_call \<Rightarrow> heap \<Rightarrow> heap" where
  "app_step (NewSkill n d i) h = snd (Skill_new n d i h)"
| "app_step (NewPortfolioItem t d tags img) h = snd (PortfolioItem_of_literal t d tags img h)"
| "app_step (NewTimelineItem da t c d) h = snd (TimelineItem_new da t c d h)"
| "app_step (SkillToHTML r) h = snd (Skill_toHTML_call r h)"
| "app_step (PortfolioItemToHTML r) h = snd (PortfolioItem_toHTML_call r h)"
| "app_step (TimelineItemToHTML r) h = snd (TimelineItem_toHTML_call r h)"

definition app_run :: "app_call list \<Rightarrow> heap \<Rightarrow> heap" where
  "app_run calls h = fold app_step calls h"

section \<open>Section renderers\<close>

text \<open>
  A renderer holds the element found by \<^verbatim>\<open>document.getElementById\<close> (absent when the
  page has no such element) and its list of records. \<^verbatim>\<open>render\<close> joins the records'
  markup and assigns it to \<^verbatim>\<open>innerHTML\<close>; on an absent element the assignment raises a
  TypeError. The model of \<^verbatim>\<open>render\<close> ends at that assignment: \<^verbatim>\<open>animateOnScroll\<close>, which
  follows, sets inline styles on the parsed children and registers an observer.
\<close>

record Element =
  innerHTML :: string

record SkillsGrid =
  skills_element :: "Element option"
  skills :: "skill_data Model list"

record PortfolioGrid =
  portfolio_element :: "Element option"
  portfolio_items :: "portfolio_data Model list"

record Timeline =
  timeline_element :: "Element option"
  timeline_items :: "timeline_data Model list"

definition SkillsGrid_render :: "SkillsGrid \<Rightarrow> js_error + SkillsGrid" where
  "SkillsGrid_render this =
     (let skillsHTML = join [] (map Skill_toHTML (skills this)) in
        case skills_element this of
          None \<Rightarrow> Inl TypeError
        | Some el \<Rightarrow> Inr (this\<lparr>skills_element := Some (el\<lparr>innerHTML := skillsHTML\<rparr>)\<rparr>))"

definition PortfolioGrid_render :: "PortfolioGrid \<Rightarrow> js_error + PortfolioGrid" where
  "PortfolioGrid_render this =
     (let itemsHTML = join [] (map PortfolioItem_toHTML (portfolio_items this)) in
        case portfolio_element this of
          None \<Rightarrow> Inl TypeError
        | Some el \<Rightarrow> Inr (this\<lparr>portfolio_element := Some (el\<lparr>innerHTML := itemsHTML\<rparr>)\<rparr>))"

definition Timeline_render :: "Timeline \<Rightarrow> js_error + Timeline" where
  "Timeline_render this =
     (let itemsHTML = join [] (map TimelineItem_toHTML (timeline_items this)) in
        case timeline_element this of
          None \<Rightarrow> Inl TypeError
        | Some el \<Rightarrow> Inr (this\<lparr>timeline_element := Some (el\<lparr>innerHTML := itemsHTML\<rparr>)\<rparr>))"

section \<open>Class lists\<close>

text \<open>
  An element's \<^verbatim>\<open>classList\<close> is an ordered set of tokens: \<^verbatim>\<open>add\<close> appends a token
  that is not there yet, \<^verbatim>\<open>remove\<close> deletes it, \<^verbatim>\<open>toggle\<close> does the one or the other.
\<close>

definition classList_add :: "string \<Rightarrow> string list \<Rightarrow> string list" where
  "classList_add token cl = (if token \<in> set cl then cl else cl @ [token])"

definition classList_remove :: "string \<Rightarrow> string list \<Rightarrow> string list" where
  "classList_remove token cl = removeAll token cl"

definition classList_toggle :: "string \<Rightarrow> string list \<Rightarrow> string list" where
  "classList_toggle token cl =
     (if token \<in> set cl then classList_remove token cl else classList_add token cl)"

section \<open>Navigation: menu toggle and link clicks\<close>

text \<open>
  \<^verbatim>\<open>Navigation.setupToggle\<close> (lines 144-148) and \<^verbatim>\<open>Navigation.setupLinks\<close> (lines
  172-193). The state a click can change: whether the event's default action was
  prevented, the calls of \<^verbatim>\<open>window.scrollTo\<close> made so far, and the class list of the
  menu. The document is a parameter: \<open>querySelector\<close> gives, for a selector, the
  first matching element, nothing, or the SyntaxError of a selector that does not parse.
  A link without \<^verbatim>\<open>href\<close> has the attribute value \<^verbatim>\<open>null\<close>, which
  \<^verbatim>\<open>querySelector\<close> reads as the selector \<^verbatim>\<open>null\<close>.
\<close>

record target_element =
  offsetTop :: int

record scroll_request =
  scroll_top :: int
  behavior :: string

record nav_page =
  nav_defaultPrevented :: bool
  scrollTo_calls :: "scroll_request list"
  menu_classList :: "string list"

definition setupToggle_listener :: "nav_page \<Rightarrow> nav_page" where
  "setupToggle_listener p = p\<lparr>menu_classList := classList_toggle ''active'' (menu_classList p)\<rparr>"

definition setupLinks_listener ::
  "(string \<Rightarrow> js_error + target_element option) \<Rightarrow> string option \<Rightarrow> nav_page
     \<Rightarrow> nav_page \<times> js_error option" where
  "setupLinks_listener querySelector href p0 =
     (let p1 = p0\<lparr>nav_defaultPrevented := True\<rparr>;
          targetId = (case href of None \<Rightarrow> ''null'' | Some h \<Rightarrow> h)
      in case querySelector targetId of
           Inl err \<Rightarrow> (p1, Some err)
         | Inr None \<Rightarrow> (p1, None)
         | Inr (Some target) \<Rightarrow>
             (let offset = 80;
                  targetPosition = offsetTop target - offset;
                  p2 = p1\<lparr>scrollTo_calls := scrollTo_calls p1 @
                          [\<lparr>scroll_top = targetPosition, behavior = ''smooth''\<rparr>]\<rparr>;
                  p3 = p2\<lparr>menu_classList := classList_remove ''active'' (menu_classList p2)\<rparr>
              in (p3, None)))"

section \<open>Section reveal\<close>

text \<open>
  \<^verbatim>\<open>ScrollAnimations.init\<close> (lines 369-381). Elements are named by numbers; the document
  state is the class list of each element. The observer's callback receives a batch of
  entries and handles them in order; \<open>observer_run\<close> handles a sequence of batches.
\<close>

record IntersectionObserverEntry =
  target :: nat
  isIntersecting :: bool

definition reveal_entry ::
  "IntersectionObserverEntry \<Rightarrow> (nat \<Rightarrow> string list) \<Rightarrow> (nat \<Rightarrow> string list)" where
  "reveal_entry entry doc =
     (if isIntersecting entry
      then doc(target entry := classList_add ''fade-in'' (doc (target entry)))
      else doc)"

definition ScrollAnimations_callback ::
  "IntersectionObserverEntry list \<Rightarrow> (nat \<Rightarrow> string list) \<Rightarrow> (nat \<Rightarrow> string list)" where
  "ScrollAnimations_callback entries doc = fold reveal_entry entries doc"

definition observer_run ::
  "IntersectionObserverEntry list list \<Rightarrow> (nat \<Rightarrow> string list) \<Rightarrow> (nat \<Rightarrow> string list)" where
  "observer_run batches doc = fold ScrollAnimations_callback batches doc"

section \<open>Contact form\<close>

text \<open>
  \<^verbatim>\<open>ContactForm.handleSubmit\<close> and \<^verbatim>\<open>ContactForm.showMessage\<close> (lines 320-358). The page
  state: the clock (in the time units of \<^verbatim>\<open>setTimeout\<close>), the three controls found by
  \<^verbatim>\<open>getElementById\<close> (absent when the page has none; each with its current and its default
  value, and taken to belong to the form), the message elements appended to the form,
  the console, the network requests issued, the pending timers and the submit event's
  \<^verbatim>\<open>defaultPrevented\<close> flag. The two timer callbacks of \<^verbatim>\<open>showMessage\<close> are the two
  constructors of \<open>timer_action\<close>, each holding the message element it closes over.
\<close>

record control =
  val :: string
  defaultValue :: string

record formData =
  fd_name :: string
  fd_email :: string
  fd_message :: string

record message_div =
  div_id :: nat
  className :: string
  textContent :: string
  cssText :: string
  animation :: string

datatype timer_action = FadeOut nat | Remove nat

record timer =
  due :: nat
  action :: timer_action

record form_page =
  now :: nat
  name_field :: "control option"
  email_field :: "control option"
  message_field :: "control option"
  form_children :: "message_div list"
  console :: "(string \<times> formData) list"
  requests :: "string list"
  timers :: "timer list"
  form_defaultPrevented :: bool
  next_id :: nat

definition setTimeout :: "timer_action \<Rightarrow> nat \<Rightarrow> form_page \<Rightarrow> form_page" where
  "setTimeout callback delay p = p\<lparr>timers := timers p @ [\<lparr>due = now p + delay, action = callback\<rparr>]\<rparr>"

text \<open>The element built in lines 340-350 of \<^verbatim>\<open>showMessage\<close>, before it is appended.\<close>

definition createMessageDiv :: "nat \<Rightarrow> string \<Rightarrow> string \<Rightarrow> message_div" where
  \<open>createMessageDiv i message type =
     \<lparr>div_id = i,
      className = ''form-message '' @ type,
      textContent = message,
      cssText =
        ''\<newline>'' @
        ''            padding: 1rem;\<newline>'' @
        ''            margin-top: 1rem;\<newline>'' @
        ''            border-radius: 6px;\<newline>'' @
        ''            background: '' @
        (if type = ''success'' then ''#C17B5F'' else ''#E57373'') @
        '';\<newline>'' @
        ''            color: white;\<newline>'' @
        ''            animation: fadeIn 0.3s ease;\<newline>'' @
        ''        '',
      animation = ''fadeIn 0.3s ease''\<rparr>\<close>

definition showMessage :: "string \<Rightarrow> string \<Rightarrow> form_page \<Rightarrow> form_page" where
  "showMessage message type p =
     (let messageDiv = createMessageDiv (next_id p) message type;
          p1 = p\<lparr>form_children := form_children p @ [messageDiv], next_id := Suc (next_id p)\<rparr>
      in setTimeout (FadeOut (div_id messageDiv)) 3000 p1)"

definition form_reset :: "form_page \<Rightarrow> form_page" where
  "form_reset p =
     (let restore = map_option (\<lambda>c. c\<lparr>val := defaultValue c\<rparr>) in
        p\<lparr>name_field := restore (name_field p),
          email_field := restore (email_field p),
          message_field := restore (message_field p)\<rparr>)"

definition handleSubmit :: "form_page \<Rightarrow> form_page \<times> js_error option" where
  "handleSubmit p0 =
     (let p1 = p0\<lparr>form_defaultPrevented := True\<rparr> in
        case (name_field p1, email_field p1, message_field p1) of
          (Some n, Some e, Some m) \<Rightarrow>
            (let fd = \<lparr>fd_name = val n, fd_email = val e, fd_message = val m\<rparr>;
                 p2 = p1\<lparr>console := console p1 @ [(''Form submitted:'', fd)]\<rparr>;
                 p3 = showMessage ''Thank you! Your message has been sent.'' ''success'' p2;
                 p4 = form_reset p3
             in (p4, None))
        | _ \<Rightarrow> (p1, Some TypeError))"

text \<open>
  Running a timer callback. The outer callback of \<^verbatim>\<open>showMessage\<close> sets the element's
  animation and starts the inner timer; the inner callback removes the element.
\<close>

fun fire :: "timer_action \<Rightarrow> form_page \<Rightarrow> form_page" where
  "fire (FadeOut i) p =
     setTimeout (Remove i) 300
       (p\<lparr>form_children :=
            map (\<lambda>d. if div_id d = i then d\<lparr>animation := ''fadeOut 0.3s ease''\<rparr> else d)
              (form_children p)\<rparr>)"
| "fire (Remove i) p = p\<lparr>form_children := filter (\<lambda>d. div_id d \<noteq> i) (form_children p)\<rparr>"

text \<open>
  The event loop's timer queue: the pending timer that is due first runs first, timers
  due at the same time in the order they were set.
\<close>

fun earliest :: "timer list \<Rightarrow> timer option" where
  "earliest [] = None"
| "earliest (t # ts) =
     (case earliest ts of
        None \<Rightarrow> Some t
      | Some u \<Rightarrow> if due u < due t then Some u else Some t)"

fun weight :: "timer \<Rightarrow> nat" where
  "weight t = (case action t of FadeOut i \<Rightarrow> 2 | Remove i \<Rightarrow> 1)"

lemma earliest_mem: "earliest ts = Some t \<Longrightarrow> t \<in> set ts"
  by (induction ts arbitrary: t) (auto split: option.splits if_splits)

lemma weight_remove1:
  "t \<in> set ts \<Longrightarrow> sum_list (map weight (remove1 t ts)) + weight t = sum_list (map weight ts)"
  by (induction ts) auto

lemma weight_fire:
  "sum_list (map weight (timers (fire (action t) p)))
     < sum_list (map weight (timers p)) + weight t"
  by (cases "action t") (simp_all add: setTimeout_def)

text \<open>Let the clock advance to time \<open>T\<close>, running every timer that comes due on the way.\<close>

function run_until :: "nat \<Rightarrow> form_page \<Rightarrow> form_page" where
  "run_until T p =
     (case earliest (timers p) of
        None \<Rightarrow> p\<lparr>now := max (now p) T\<rparr>
      | Some t \<Rightarrow>
          if due t \<le> T
          then run_until T
                 (fire (action t) (p\<lparr>now := max (now p) (due t), timers := remove1 t (timers p)\<rparr>))
          else p\<lparr>now := max (now p) T\<rparr>)"
  by pat_completeness auto
termination
proof (relation "measure (\<lambda>(T, p). sum_list (map weight (timers p)))")
  show "wf (measure (\<lambda>(T, p). sum_list (map weight (timers p))))" by simp
next
  fix T :: nat and p :: form_page and t :: timer
  assume e: "earliest (timers p) = Some t" and "due t \<le> T"
  let ?q = "p\<lparr>now := max (now p) (due t), timers := remove1 t (timers p)\<rparr>"
  have m: "t \<in> set (timers p)" using e by (rule earliest_mem)
  have a: "sum_list (map weight (timers (fire (action t) ?q)))
             < sum_list (map weight (remove1 t (timers p))) + weight t"
    using weight_fire [of t ?q] by simp
  have b: "sum_list (map weight (remove1 t (timers p))) + weight t
             = sum_list (map weight (timers p))"
    using m by (rule weight_remove1)
  from a b have "sum_list (map weight (timers (fire (action t) ?q)))
                   < sum_list (map weight (timers p))"
    by simp
  then show "((T, fire (action t) ?q), (T, p))
               \<in> measure (\<lambda>(T, p). sum_list (map weight (timers p)))"
    by simp
qed

declare run_until.simps [simp del]

section \<open>Smooth scroll easing\<close>

text \<open>
  JavaScript numbers are IEEE 754 doubles: each arithmetic operation returns its exact
  result rounded to the nearest double, ties to the even significand, and Infinity when
  the rounded result is beyond the largest double. \<open>to_double\<close> is that rounding on the
  reals (53 significant bits, least exponent \<open>-1074\<close>); \<open>fl\<close> gives the rounded result
  when it is finite and \<open>None\<close> otherwise. Finite numbers are modelled by their real values
  (the two zeros are one value), and \<open>None\<close> stands for Infinity and NaN.
\<close>

definition round_half_even :: "real \<Rightarrow> int" where
  "round_half_even y =
     (let f = \<lfloor>y\<rfloor>; r = y - of_int f in
        if r < 1 / 2 then f else if 1 / 2 < r then f + 1 else if even f then f else f + 1)"

definition to_double :: "real \<Rightarrow> real" where
  "to_double x =
     (if x = 0 then 0
      else (let e = max (\<lfloor>log 2 \<bar>x\<bar>\<rfloor> - 52) (- 1074);
                q = 2 powr (of_int e)
            in q * of_int (round_half_even (x / q))))"

definition fl :: "real \<Rightarrow> real option" where
  "fl x = (let r = to_double x in if \<bar>r\<bar> < 2 ^ 1024 then Some r else None)"

definition is_double :: "real \<Rightarrow> bool" where
  "is_double x = (fl x = Some x)"

text \<open>
  The four operations on finite numbers. A division by zero gives Infinity or NaN.
\<close>

definition num_div :: "real \<Rightarrow> real \<Rightarrow> real option" where
  "num_div x y = (if y = 0 then None else fl (x / y))"

definition num_mul :: "real \<Rightarrow> real \<Rightarrow> real option" where
  "num_mul x y = fl (x * y)"

definition num_add :: "real \<Rightarrow> real \<Rightarrow> real option" where
  "num_add x y = fl (x + y)"

definition num_sub :: "real \<Rightarrow> real \<Rightarrow> real option" where
  "num_sub x y = fl (x - y)"

text \<open>
  The local function \<^verbatim>\<open>ease\<close> of \<^verbatim>\<open>smoothScroll\<close> (lines 551-556), for finite
  arguments. Once an operation of \<^verbatim>\<open>ease\<close> gives Infinity or NaN, so does every later
  one (the other operand of a later division is never such a value), and the comparison
  only chooses between two branches that both end so: the result is \<open>None\<close>.
\<close>

definition ease :: "real \<Rightarrow> real \<Rightarrow> real \<Rightarrow> real \<Rightarrow> real option" where
  "ease t b c d =
     do {
       h \<leftarrow> num_div d 2;
       t1 \<leftarrow> num_div t h;
       if t1 < 1 then
         do {
           k \<leftarrow> num_div c 2;
           m1 \<leftarrow> num_mul k t1;
           m2 \<leftarrow> num_mul m1 t1;
           num_add m2 b
         }
       else
         do {
           t2 \<leftarrow> num_sub t1 1;
           k \<leftarrow> num_div (- c) 2;
           u \<leftarrow> num_sub t2 2;
           v \<leftarrow> num_mul t2 u;
           w \<leftarrow> num_sub v 1;
           z \<leftarrow> num_mul k w;
           num_add z b
         }
     }"


section \<open>Properties: header visibility on scroll\<close>

lemma listener_nonpos:
  "c \<le> 0 \<Longrightarrow> setupScroll_listener c s = s\<lparr>transform := ''translateY(0)''\<rparr>"
  by (simp add: setupScroll_listener_def)

lemma listener_pos_lastScroll:
  "0 < c \<Longrightarrow> lastScroll (setupScroll_listener c s) = c"
  by (simp add: setupScroll_listener_def Let_def)

lemma scroll_run_lastScroll:
  "lastScroll (scroll_run cs s) =
     (case filter (\<lambda>c. 0 < c) cs of [] \<Rightarrow> lastScroll s | p # ps \<Rightarrow> last (p # ps))"
proof (induction cs arbitrary: s rule: rev_induct)
  case Nil
  show ?case by (simp add: scroll_run_def)
next
  case (snoc c cs)
  show ?case
  proof (cases "0 < c")
    case True
    then show ?thesis
      by (cases "filter (\<lambda>c. 0 < c) cs") (simp_all add: scroll_run_def listener_pos_lastScroll)
  next
    case False
    then have "c \<le> 0" by simp
    with snoc show ?thesis
      by (simp add: scroll_run_def listener_nonpos)
  qed
qed

text \<open>
  C1. From a previous offset of 0, the scroll offsets 0, 50, 150, 120 leave the header
  visible, visible, hidden, visible, whatever its style was before the first event.
\<close>

theorem C1_scroll_sequence:
  "scroll_trace (setupScroll_init t0) [0, 50, 150, 120] =
     [''translateY(0)'', ''translateY(0)'', ''translateY(-100%)'', ''translateY(0)'']"
  by (simp add: setupScroll_init_def setupScroll_listener_def Let_def)

text \<open>
  C2, as stated: every event with a new offset at or above zero forces the header
  visible. It fails: from a previous offset of 0 the offset 150 is at or above zero and
  hides the header.
\<close>

theorem C2_counterexample:
  "(0::real) \<le> 150 \<and>
   transform (setupScroll_listener 150 (setupScroll_init [])) \<noteq> ''translateY(0)''"
  by (simp add: setupScroll_init_def setupScroll_listener_def Let_def)

text \<open>
  C2, amended: the guard of the handler is "at or below zero". Every event whose new
  offset is at or below zero forces the header visible, whatever the previous offset;
  for a positive new offset the header is hidden exactly when the offset exceeds both
  the previous offset and 100, and visible otherwise.
\<close>

theorem C2_visible_at_or_below_zero:
  "(c \<le> 0 \<longrightarrow> transform (setupScroll_listener c s) = ''translateY(0)'') \<and>
   (0 < c \<longrightarrow>
      transform (setupScroll_listener c s) =
        (if lastScroll s < c \<and> 100 < c then ''translateY(-100%)'' else ''translateY(0)''))"
  by (simp add: setupScroll_listener_def Let_def)

theorem C2_visible_at_or_below_zero_witness:
  "transform (setupScroll_listener (-5) \<lparr>lastScroll = 300, transform = ''translateY(-100%)''\<rparr>)
     = ''translateY(0)'' \<and>
   transform (setupScroll_listener 120 \<lparr>lastScroll = 150, transform = ''translateY(-100%)''\<rparr>)
     = ''translateY(0)'' \<and>
   transform (setupScroll_listener 150 \<lparr>lastScroll = 50, transform = ''translateY(0)''\<rparr>)
     = ''translateY(-100%)''"
  using C2_visible_at_or_below_zero
          [of "-5" "\<lparr>lastScroll = 300, transform = ''translateY(-100%)''\<rparr>"]
        C2_visible_at_or_below_zero
          [of 120 "\<lparr>lastScroll = 150, transform = ''translateY(-100%)''\<rparr>"]
        C2_visible_at_or_below_zero
          [of 150 "\<lparr>lastScroll = 50, transform = ''translateY(0)''\<rparr>"]
  by simp

text \<open>
  C9. An event whose new offset is at or below zero only sets the header visible: the
  stored previous offset is left as it was, so the event after it is handled exactly as
  it would have been without the non-positive event. Over a whole run the stored offset
  is the last positive offset seen (the initial value while none was seen).
\<close>

theorem C9_early_return_keeps_lastScroll:
  assumes "c \<le> 0"
  shows "setupScroll_listener c s = s\<lparr>transform := ''translateY(0)''\<rparr> \<and>
         lastScroll (setupScroll_listener c s) = lastScroll s \<and>
         setupScroll_listener c' (setupScroll_listener c s) = setupScroll_listener c' s \<and>
         lastScroll (scroll_run cs s) =
           (case filter (\<lambda>x. 0 < x) cs of [] \<Rightarrow> lastScroll s | p # ps \<Rightarrow> last (p # ps))"
proof (intro conjI)
  show eq: "setupScroll_listener c s = s\<lparr>transform := ''translateY(0)''\<rparr>"
    using assms by (rule listener_nonpos)
  show "lastScroll (setupScroll_listener c s) = lastScroll s"
    by (simp add: eq)
  show "setupScroll_listener c' (setupScroll_listener c s) = setupScroll_listener c' s"
    using assms by (simp add: setupScroll_listener_def Let_def)
  show "lastScroll (scroll_run cs s) =
           (case filter (\<lambda>x. 0 < x) cs of [] \<Rightarrow> lastScroll s | p # ps \<Rightarrow> last (p # ps))"
    by (rule scroll_run_lastScroll)
qed

theorem C9_early_return_keeps_lastScroll_witness:
  "lastScroll (setupScroll_listener 0 (setupScroll_listener 150 (setupScroll_init []))) = 150 \<and>
   transform (setupScroll_listener 120
      (setupScroll_listener 0 (setupScroll_listener 150 (setupScroll_init []))))
     = ''translateY(0)'' \<and>
   lastScroll (scroll_run [150, 0, -3] (setupScroll_init [])) = 150"
proof -
  have h: "(0::real) \<le> 0" by simp
  show ?thesis
    using C9_early_return_keeps_lastScroll
            [OF h, of "setupScroll_listener 150 (setupScroll_init [])" 120 "[150, 0, -3]"]
          C9_early_return_keeps_lastScroll
            [OF h, of "setupScroll_init []" 120 "[150, 0, -3]"]
    by (simp add: setupScroll_init_def setupScroll_listener_def Let_def)
qed

section \<open>Properties: records and renderers\<close>

lemma join_empty: "join [] xs = concat xs"
  by (induction "[] :: string" xs rule: join.induct) simp_all

lemma Skill_toHTML_call_heap: "snd (Skill_toHTML_call r h) = h"
  by (auto simp: Skill_toHTML_call_def split: sum.splits prod.splits)

lemma PortfolioItem_toHTML_call_heap: "snd (PortfolioItem_toHTML_call r h) = h"
  by (auto simp: PortfolioItem_toHTML_call_def
      split: sum.splits prod.splits js_value.splits option.splits object.splits)

lemma TimelineItem_toHTML_call_heap: "snd (TimelineItem_toHTML_call r h) = h"
  by (auto simp: TimelineItem_toHTML_call_def split: sum.splits prod.splits)

lemma app_step_extends: "prefix h (app_step c h)"
  by (cases c)
     (simp_all add: Skill_new_def PortfolioItem_of_literal_def PortfolioItem_new_def
        TimelineItem_new_def Model_new_def alloc_def Skill_toHTML_call_heap
        PortfolioItem_toHTML_call_heap TimelineItem_toHTML_call_heap)

lemma app_run_extends: "prefix h (app_run calls h)"
proof (induction calls arbitrary: h)
  case Nil
  show ?case by (simp add: app_run_def)
next
  case (Cons c cs)
  have "prefix h (app_step c h)" by (rule app_step_extends)
  also have "prefix (app_step c h) (app_run cs (app_step c h))" by (rule Cons.IH)
  finally show ?case by (simp add: app_run_def)
qed

lemma lookup_prefix: "prefix h h' \<Longrightarrow> a < length h \<Longrightarrow> lookup h' a = lookup h a"
  by (auto simp: lookup_def prefix_def nth_append)

lemma lookup_app_run: "a < length h \<Longrightarrow> lookup (app_run calls h) a = lookup h a"
  by (rule lookup_prefix [OF app_run_extends])

lemma Skill_toHTML_call_fields:
  assumes "lookup h r = Some (ModelObj (JRef d))"
    and "lookup h d = Some (DataObj [(''name'', JStr n), (''description'', JStr de),
                                      (''icon'', JStr i)])"
  shows "Skill_toHTML_call r h = (Inr (Skill_toHTML (Skill n de i)), h)"
  using assms by (simp add: Skill_toHTML_call_def get_prop_def toStr_def)

lemma PortfolioItem_toHTML_ignores_image:
  "PortfolioItem_toHTML (PortfolioItem t d tags im) = PortfolioItem_toHTML (PortfolioItem t d tags None)"
  by (simp add: PortfolioItem_toHTML_def PortfolioItem_def Model_constructor_def)

lemma PortfolioItem_toHTML_call_fields:
  assumes "lookup h r = Some (ModelObj (JRef d))"
    and "lookup h d = Some (DataObj [(''title'', JStr t), (''description'', JStr de),
                                      (''tags'', JRef a), (''image'', img)])"
    and "lookup h a = Some (ArrayObj tags)"
  shows "PortfolioItem_toHTML_call r h =
           (Inr (PortfolioItem_toHTML (PortfolioItem t de tags im)), h)"
  using assms
  by (simp add: PortfolioItem_toHTML_call_def get_prop_def toStr_def
        PortfolioItem_toHTML_ignores_image [of t de tags im])

lemma TimelineItem_toHTML_call_fields:
  assumes "lookup h r = Some (ModelObj (JRef d))"
    and "lookup h d = Some (DataObj [(''date'', JStr da), (''title'', JStr t),
                                      (''company'', JStr c), (''description'', JStr de)])"
  shows "TimelineItem_toHTML_call r h = (Inr (TimelineItem_toHTML (TimelineItem da t c de)), h)"
  using assms by (simp add: TimelineItem_toHTML_call_def get_prop_def toStr_def)

lemma Skill_new_result:
  "Skill_new n d i h =
     (Suc (length h),
      h @ [DataObj [(''name'', n), (''description'', d), (''icon'', i)], ModelObj (JRef (length h))])"
  by (simp add: Skill_new_def Model_new_def alloc_def)

lemma PortfolioItem_of_literal_result:
  "PortfolioItem_of_literal t d tags img h =
     (Suc (Suc (length h)),
      h @ [ArrayObj tags,
           DataObj [(''title'', t), (''description'', d), (''tags'', JRef (length h)),
                    (''image'', img)],
           ModelObj (JRef (Suc (length h)))])"
  by (simp add: PortfolioItem_of_literal_def PortfolioItem_new_def Model_new_def alloc_def)

lemma TimelineItem_new_result:
  "TimelineItem_new da t c d h =
     (Suc (length h),
      h @ [DataObj [(''date'', da), (''title'', t), (''company'', c), (''description'', d)],
           ModelObj (JRef (length h))])"
  by (simp add: TimelineItem_new_def Model_new_def alloc_def)

lemma lookup_app_run_append:
  "a < length cs \<Longrightarrow> lookup (app_run calls (h @ cs)) (length h + a) = Some (cs ! a)"
  by (simp add: lookup_app_run) (simp add: lookup_def nth_append)

text \<open>
  Writes to a record are visible in the store: \<^verbatim>\<open>setData\<close>, the one method that
  writes, replaces what \<^verbatim>\<open>getData\<close> returns, and a write to the tags array a
  portfolio item shares with its creator would show in the item's markup. The program
  performs neither.
\<close>

lemma Model_setData_getData:
  "lookup h this = Some (ModelObj old) \<Longrightarrow>
     fst (Model_getData this (Model_setData this d h)) = Inr d"
  by (auto simp: Model_getData_def Model_setData_def get_prop_def lookup_def split: if_splits)

lemma lookup_update:
  "lookup (h[a := obj]) b = (if b = a \<and> a < length h then Some obj else lookup h b)"
  by (simp add: lookup_def)

lemma shared_tags_array_is_visible:
  assumes "lookup h r = Some (ModelObj (JRef d))"
    and "lookup h d = Some (DataObj [(''title'', JStr t), (''description'', JStr de),
                                      (''tags'', JRef a), (''image'', img)])"
    and "lookup h a = Some (ArrayObj tags)"
  shows "PortfolioItem_toHTML_call r (h[a := ArrayObj tags']) =
           (Inr (PortfolioItem_toHTML (PortfolioItem t de tags' None)), h[a := ArrayObj tags'])"
proof -
  have a: "a < length h" using assms(3) by (simp add: lookup_def split: if_splits)
  have "a \<noteq> r" "a \<noteq> d" using assms by auto
  with assms a have
    "lookup (h[a := ArrayObj tags']) r = Some (ModelObj (JRef d))"
    "lookup (h[a := ArrayObj tags']) d =
       Some (DataObj [(''title'', JStr t), (''description'', JStr de),
                      (''tags'', JRef a), (''image'', img)])"
    "lookup (h[a := ArrayObj tags']) a = Some (ArrayObj tags')"
    by (simp_all add: lookup_update)
  then show ?thesis by (rule PortfolioItem_toHTML_call_fields)
qed

text \<open>
  C4. A record's fields are set by its constructor, and nothing the program does
  afterwards changes them: through every sequence of the program's operations on records
  (constructions and \<^verbatim>\<open>toHTML\<close> calls) each object already in the store keeps its
  content. So a record built from strings still holds the data object, the fields and the
  tags array of its construction, and its \<^verbatim>\<open>toHTML\<close> returns the markup of exactly
  those fields and leaves the store as it is.
\<close>

theorem C4_fields_fixed_at_construction:
  "(a < length h \<longrightarrow> lookup (app_run calls h) a = lookup h a) \<and>
   (Skill_new (JStr n) (JStr d) (JStr i) h = (r1, h1) \<longrightarrow>
      fst (Model_getData r1 (app_run calls h1)) = Inr (JRef (length h)) \<and>
      lookup (app_run calls h1) (length h) =
        Some (DataObj [(''name'', JStr n), (''description'', JStr d), (''icon'', JStr i)]) \<and>
      Skill_toHTML_call r1 (app_run calls h1) =
        (Inr (Skill_toHTML (Skill n d i)), app_run calls h1)) \<and>
   (PortfolioItem_of_literal (JStr t) (JStr pd) tags img h = (r2, h2) \<longrightarrow>
      fst (Model_getData r2 (app_run calls h2)) = Inr (JRef (Suc (length h))) \<and>
      lookup (app_run calls h2) (Suc (length h)) =
        Some (DataObj [(''title'', JStr t), (''description'', JStr pd),
                       (''tags'', JRef (length h)), (''image'', img)]) \<and>
      lookup (app_run calls h2) (length h) = Some (ArrayObj tags) \<and>
      PortfolioItem_toHTML_call r2 (app_run calls h2) =
        (Inr (PortfolioItem_toHTML (PortfolioItem t pd tags im)), app_run calls h2)) \<and>
   (TimelineItem_new (JStr da) (JStr tt) (JStr co) (JStr ds) h = (r3, h3) \<longrightarrow>
      fst (Model_getData r3 (app_run calls h3)) = Inr (JRef (length h)) \<and>
      lookup (app_run calls h3) (length h) =
        Some (DataObj [(''date'', JStr da), (''title'', JStr tt), (''company'', JStr co),
                       (''description'', JStr ds)]) \<and>
      TimelineItem_toHTML_call r3 (app_run calls h3) =
        (Inr (TimelineItem_toHTML (TimelineItem da tt co ds)), app_run calls h3))"
proof (intro conjI impI)
  show "lookup (app_run calls h) a = lookup h a" if "a < length h"
    using that by (rule lookup_app_run)
next
  assume c: "Skill_new (JStr n) (JStr d) (JStr i) h = (r1, h1)"
  let ?cs = "[DataObj [(''name'', JStr n), (''description'', JStr d), (''icon'', JStr i)],
              ModelObj (JRef (length h))]"
  from c have r: "r1 = length h + 1" and h1: "h1 = h @ ?cs"
    by (simp_all add: Skill_new_result)
  have d: "lookup (app_run calls h1) (length h) = Some (?cs ! 0)"
    unfolding h1 using lookup_app_run_append [of 0 ?cs calls h] by simp
  have m: "lookup (app_run calls h1) r1 = Some (?cs ! 1)"
    unfolding h1 r by (rule lookup_app_run_append) simp
  from d show "lookup (app_run calls h1) (length h) =
        Some (DataObj [(''name'', JStr n), (''description'', JStr d), (''icon'', JStr i)])"
    by simp
  from m show "fst (Model_getData r1 (app_run calls h1)) = Inr (JRef (length h))"
    by (simp add: Model_getData_def get_prop_def)
  from m d show "Skill_toHTML_call r1 (app_run calls h1) =
        (Inr (Skill_toHTML (Skill n d i)), app_run calls h1)"
    by (intro Skill_toHTML_call_fields) simp_all
next
  assume c: "PortfolioItem_of_literal (JStr t) (JStr pd) tags img h = (r2, h2)"
  let ?cs = "[ArrayObj tags,
              DataObj [(''title'', JStr t), (''description'', JStr pd),
                       (''tags'', JRef (length h)), (''image'', img)],
              ModelObj (JRef (Suc (length h)))]"
  from c have r: "r2 = length h + 2" and h2: "h2 = h @ ?cs"
    by (simp_all add: PortfolioItem_of_literal_result)
  have a: "lookup (app_run calls h2) (length h) = Some (?cs ! 0)"
    unfolding h2 using lookup_app_run_append [of 0 ?cs calls h] by simp
  have d: "lookup (app_run calls h2) (Suc (length h)) = Some (?cs ! 1)"
    unfolding h2 using lookup_app_run_append [of 1 ?cs calls h] by simp
  have m: "lookup (app_run calls h2) r2 = Some (?cs ! 2)"
    unfolding h2 r by (rule lookup_app_run_append) simp
  from a show "lookup (app_run calls h2) (length h) = Some (ArrayObj tags)" by simp
  from d show "lookup (app_run calls h2) (Suc (length h)) =
        Some (DataObj [(''title'', JStr t), (''description'', JStr pd),
                       (''tags'', JRef (length h)), (''image'', img)])"
    by simp
  from m show "fst (Model_getData r2 (app_run calls h2)) = Inr (JRef (Suc (length h)))"
    by (simp add: Model_getData_def get_prop_def)
  from m d a show "PortfolioItem_toHTML_call r2 (app_run calls h2) =
        (Inr (PortfolioItem_toHTML (PortfolioItem t pd tags im)), app_run calls h2)"
    by (intro PortfolioItem_toHTML_call_fields [where img = img]) simp_all
next
  assume c: "TimelineItem_new (JStr da) (JStr tt) (JStr co) (JStr ds) h = (r3, h3)"
  let ?cs = "[DataObj [(''date'', JStr da), (''title'', JStr tt), (''company'', JStr co),
                       (''description'', JStr ds)],
              ModelObj (JRef (length h))]"
  from c have r: "r3 = length h + 1" and h3: "h3 = h @ ?cs"
    by (simp_all add: TimelineItem_new_result)
  have d: "lookup (app_run calls h3) (length h) = Some (?cs ! 0)"
    unfolding h3 using lookup_app_run_append [of 0 ?cs calls h] by simp
  have m: "lookup (app_run calls h3) r3 = Some (?cs ! 1)"
    unfolding h3 r by (rule lookup_app_run_append) simp
  from d show "lookup (app_run calls h3) (length h) =
        Some (DataObj [(''date'', JStr da), (''title'', JStr tt), (''company'', JStr co),
                       (''description'', JStr ds)])"
    by simp
  from m show "fst (Model_getData r3 (app_run calls h3)) = Inr (JRef (length h))"
    by (simp add: Model_getData_def get_prop_def)
  from m d show "TimelineItem_toHTML_call r3 (app_run calls h3) =
        (Inr (TimelineItem_toHTML (TimelineItem da tt co ds)), app_run calls h3)"
    by (intro TimelineItem_toHTML_call_fields) simp_all
qed

theorem C4_fields_fixed_at_construction_witness:
  "Skill_toHTML_call 1
     (app_run [NewPortfolioItem (JStr ''T'') (JStr ''D'') [''x'', ''y''] JNull,
               SkillToHTML 1, PortfolioItemToHTML 4,
               NewTimelineItem (JStr ''2025'') (JStr ''E'') (JStr ''F'') (JStr ''G'')]
        (snd (Skill_new (JStr ''A'') (JStr ''B'') (JStr ''C'') [])))
   = (Inr (Skill_toHTML (Skill ''A'' ''B'' ''C'')),
      [DataObj [(''name'', JStr ''A''), (''description'', JStr ''B''), (''icon'', JStr ''C'')],
       ModelObj (JRef 0),
       ArrayObj [''x'', ''y''],
       DataObj [(''title'', JStr ''T''), (''description'', JStr ''D''), (''tags'', JRef 2),
                (''image'', JNull)],
       ModelObj (JRef 3),
       DataObj [(''date'', JStr ''2025''), (''title'', JStr ''E''), (''company'', JStr ''F''),
                (''description'', JStr ''G'')],
       ModelObj (JRef 5)])"
proof -
  let ?calls = "[NewPortfolioItem (JStr ''T'') (JStr ''D'') [''x'', ''y''] JNull,
               SkillToHTML 1, PortfolioItemToHTML 4,
               NewTimelineItem (JStr ''2025'') (JStr ''E'') (JStr ''F'') (JStr ''G'')]"
  have c: "Skill_new (JStr ''A'') (JStr ''B'') (JStr ''C'') [] =
             (1, snd (Skill_new (JStr ''A'') (JStr ''B'') (JStr ''C'') []))"
    by (simp add: Skill_new_result)
  have run: "app_run ?calls (snd (Skill_new (JStr ''A'') (JStr ''B'') (JStr ''C'') [])) =
      [DataObj [(''name'', JStr ''A''), (''description'', JStr ''B''), (''icon'', JStr ''C'')],
       ModelObj (JRef 0),
       ArrayObj [''x'', ''y''],
       DataObj [(''title'', JStr ''T''), (''description'', JStr ''D''), (''tags'', JRef 2),
                (''image'', JNull)],
       ModelObj (JRef 3),
       DataObj [(''date'', JStr ''2025''), (''title'', JStr ''E''), (''company'', JStr ''F''),
                (''description'', JStr ''G'')],
       ModelObj (JRef 5)]"
    by (simp add: app_run_def Skill_new_result PortfolioItem_of_literal_result
          TimelineItem_new_result Skill_toHTML_call_heap PortfolioItem_toHTML_call_heap)
  from C4_fields_fixed_at_construction
         [of _ "[]" ?calls "''A''" "''B''" "''C''" 1
             "snd (Skill_new (JStr ''A'') (JStr ''B'') (JStr ''C'') [])"] c
  have k: "Skill_toHTML_call 1
             (app_run ?calls (snd (Skill_new (JStr ''A'') (JStr ''B'') (JStr ''C'') [])))
           = (Inr (Skill_toHTML (Skill ''A'' ''B'' ''C'')),
              app_run ?calls (snd (Skill_new (JStr ''A'') (JStr ''B'') (JStr ''C'') [])))"
    by blast
  show ?thesis unfolding run by (rule k [unfolded run])
qed

text \<open>
  C5. A section renderer assigns to its container the concatenation of the records'
  markup in the order of the list: rendering the list \<open>xs @ ys\<close> gives the markup of
  \<open>xs\<close> followed by the markup of \<open>ys\<close>, for the three renderers.
\<close>

theorem C5_render_concatenates:
  "SkillsGrid_render \<lparr>skills_element = Some el1, skills = xs1 @ ys1\<rparr> =
     Inr \<lparr>skills_element =
            Some (el1\<lparr>innerHTML := concat (map Skill_toHTML xs1) @ concat (map Skill_toHTML ys1)\<rparr>),
          skills = xs1 @ ys1\<rparr> \<and>
   PortfolioGrid_render \<lparr>portfolio_element = Some el2, portfolio_items = xs2 @ ys2\<rparr> =
     Inr \<lparr>portfolio_element =
            Some (el2\<lparr>innerHTML := concat (map PortfolioItem_toHTML xs2) @
                                     concat (map PortfolioItem_toHTML ys2)\<rparr>),
          portfolio_items = xs2 @ ys2\<rparr> \<and>
   Timeline_render \<lparr>timeline_element = Some el3, timeline_items = xs3 @ ys3\<rparr> =
     Inr \<lparr>timeline_element =
            Some (el3\<lparr>innerHTML := concat (map TimelineItem_toHTML xs3) @
                                     concat (map TimelineItem_toHTML ys3)\<rparr>),
          timeline_items = xs3 @ ys3\<rparr>"
  by (simp add: SkillsGrid_render_def PortfolioGrid_render_def Timeline_render_def join_empty)

lemma sublist_mid: "sublist xs (ps @ xs @ ss)"
  by (auto simp: sublist_def)

lemma sublist_concat_map:
  "x \<in> set xs \<Longrightarrow> sublist (f x) (concat (map f xs))"
proof (induction xs)
  case Nil
  then show ?case by simp
next
  case (Cons y ys)
  show ?case
  proof (cases "x = y")
    case True
    then show ?thesis by (simp add: sublist_append)
  next
    case False
    with Cons have "sublist (f x) (concat (map f ys))" by simp
    then show ?thesis by (simp add: sublist_append)
  qed
qed

lemma sublist_tag: "sublist tag (portfolio_tag tag)"
  unfolding portfolio_tag_def by (rule sublist_mid)

lemma sublist_in_tags:
  assumes "tag \<in> set tags"
  shows "sublist tag (join [] (map portfolio_tag tags))"
proof -
  have "sublist (portfolio_tag tag) (concat (map portfolio_tag tags))"
    using assms by (rule sublist_concat_map)
  with sublist_tag [of tag] show ?thesis
    by (auto simp: join_empty intro: sublist_order.order_trans)
qed

lemma sublist_app_left: "sublist xs ys \<Longrightarrow> sublist xs (ys @ zs)"
  by (simp add: sublist_append)

lemma sublist_app_right: "sublist xs zs \<Longrightarrow> sublist xs (ys @ zs)"
  by (simp add: sublist_append)

lemma sublist_app_here: "sublist xs (xs @ zs)"
  by (simp add: sublist_append)

lemma sublist_tags_here:
  "tag \<in> set tags \<Longrightarrow> sublist tag (join [] (map portfolio_tag tags) @ zs)"
  by (rule sublist_app_left) (rule sublist_in_tags)

lemmas sublist_steps = sublist_app_here sublist_tags_here sublist_app_right

text \<open>
  C10, as stated: the markup contains each field of the record. It fails for the image
  of a portfolio item, which \<^verbatim>\<open>toHTML\<close> never reads.
\<close>

theorem C10_counterexample:
  \<open>\<not> sublist ''photo.png''
       (PortfolioItem_toHTML (PortfolioItem ''T'' ''D'' [''x''] (Some ''photo.png'')))\<close>
  by code_simp

text \<open>
  C10, amended: the markup contains, unescaped and as an exact substring, every field
  that \<^verbatim>\<open>toHTML\<close> reads: a skill's icon, name and description, a portfolio item's
  title, description and each of its tags, a timeline item's date, title, company and
  description. The image of a portfolio item is not part of the markup.
\<close>

theorem C10_fields_verbatim:
  "sublist (skill_icon (getData s)) (Skill_toHTML s) \<and>
   sublist (skill_name (getData s)) (Skill_toHTML s) \<and>
   sublist (skill_description (getData s)) (Skill_toHTML s) \<and>
   sublist (item_title (getData p)) (PortfolioItem_toHTML p) \<and>
   sublist (item_description (getData p)) (PortfolioItem_toHTML p) \<and>
   (\<forall>tag \<in> set (item_tags (getData p)). sublist tag (PortfolioItem_toHTML p)) \<and>
   sublist (tl_date (getData t)) (TimelineItem_toHTML t) \<and>
   sublist (tl_title (getData t)) (TimelineItem_toHTML t) \<and>
   sublist (tl_company (getData t)) (TimelineItem_toHTML t) \<and>
   sublist (tl_description (getData t)) (TimelineItem_toHTML t)"
  unfolding getData_def Skill_toHTML_def PortfolioItem_toHTML_def TimelineItem_toHTML_def Let_def
  by (intro conjI ballI sublist_steps) assumption

theorem C10_fields_verbatim_witness:
  \<open>sublist ''<script>'' (Skill_toHTML (Skill ''<script>'' ''a & b'' ''"''))
   \<and> sublist ''a & b'' (Skill_toHTML (Skill ''<script>'' ''a & b'' ''"''))
   \<and> sublist ''</span>'' (PortfolioItem_toHTML (PortfolioItem ''T'' ''D'' [''<i>'', ''</span>''] None))
   \<and> sublist ''<br>'' (TimelineItem_toHTML (TimelineItem ''2025'' ''<br>'' ''C'' ''D''))\<close>
  using C10_fields_verbatim
    [of \<open>Skill ''<script>'' ''a & b'' ''"''\<close>
        \<open>PortfolioItem ''T'' ''D'' [''<i>'', ''</span>''] None\<close>
        \<open>TimelineItem ''2025'' ''<br>'' ''C'' ''D''\<close>]
  by (simp add: getData_def Skill_def PortfolioItem_def TimelineItem_def Model_constructor_def)

section \<open>Properties: section reveal\<close>

lemma reveal_entry_marked:
  "''fade-in'' \<in> set (doc e) \<Longrightarrow> reveal_entry x doc e = doc e"
  by (auto simp: reveal_entry_def classList_add_def)

lemma reveal_entry_superset: "set (doc e) \<subseteq> set (reveal_entry x doc e)"
  by (auto simp: reveal_entry_def classList_add_def)

lemma reveal_entry_distinct: "distinct (doc e) \<Longrightarrow> distinct (reveal_entry x doc e)"
  by (auto simp: reveal_entry_def classList_add_def)

lemma reveal_entry_marks:
  "target x = e \<Longrightarrow> isIntersecting x \<Longrightarrow> ''fade-in'' \<in> set (reveal_entry x doc e)"
  by (simp add: reveal_entry_def classList_add_def)

lemma callback_marked:
  "''fade-in'' \<in> set (doc e) \<Longrightarrow> ScrollAnimations_callback entries doc e = doc e"
proof (induction entries arbitrary: doc)
  case Nil
  show ?case by (simp add: ScrollAnimations_callback_def)
next
  case (Cons x xs)
  have "''fade-in'' \<in> set (reveal_entry x doc e)"
    using Cons.prems by (simp add: reveal_entry_marked)
  from Cons.IH [of "reveal_entry x doc", OF this] show ?case
    using Cons.prems by (simp add: ScrollAnimations_callback_def reveal_entry_marked)
qed

lemma callback_superset: "set (doc e) \<subseteq> set (ScrollAnimations_callback entries doc e)"
proof (induction entries arbitrary: doc)
  case Nil
  show ?case by (simp add: ScrollAnimations_callback_def)
next
  case (Cons x xs)
  have "set (doc e) \<subseteq> set (reveal_entry x doc e)" by (rule reveal_entry_superset)
  also have "\<dots> \<subseteq> set (ScrollAnimations_callback xs (reveal_entry x doc) e)" by (rule Cons.IH)
  finally show ?case by (simp add: ScrollAnimations_callback_def)
qed

lemma callback_distinct:
  "distinct (doc e) \<Longrightarrow> distinct (ScrollAnimations_callback entries doc e)"
proof (induction entries arbitrary: doc)
  case Nil
  then show ?case by (simp add: ScrollAnimations_callback_def)
next
  case (Cons x xs)
  have "distinct (reveal_entry x doc e)"
    using Cons.prems by (rule reveal_entry_distinct)
  from Cons.IH [of "reveal_entry x doc", OF this]
  show ?case by (simp add: ScrollAnimations_callback_def)
qed

lemma callback_marks:
  "x \<in> set entries \<Longrightarrow> target x = e \<Longrightarrow> isIntersecting x
     \<Longrightarrow> ''fade-in'' \<in> set (ScrollAnimations_callback entries doc e)"
proof (induction entries arbitrary: doc)
  case Nil
  then show ?case by simp
next
  case (Cons y ys)
  show ?case
  proof (cases "x = y")
    case True
    with Cons.prems have "''fade-in'' \<in> set (reveal_entry y doc e)"
      by (simp add: reveal_entry_marks)
    with callback_superset [of "reveal_entry y doc" e ys]
    show ?thesis by (auto simp: ScrollAnimations_callback_def)
  next
    case False
    with Cons.prems have "x \<in> set ys" by simp
    from Cons.IH [OF this Cons.prems(2,3)]
    show ?thesis by (simp add: ScrollAnimations_callback_def)
  qed
qed

lemma observer_run_append:
  "observer_run (bs1 @ bs2) doc = observer_run bs2 (observer_run bs1 doc)"
  by (simp add: observer_run_def)

lemma observer_run_marked:
  "''fade-in'' \<in> set (doc e) \<Longrightarrow> observer_run batches doc e = doc e"
proof (induction batches arbitrary: doc)
  case Nil
  show ?case by (simp add: observer_run_def)
next
  case (Cons b bs)
  have eq: "ScrollAnimations_callback b doc e = doc e"
    using Cons.prems by (rule callback_marked)
  then have "''fade-in'' \<in> set (ScrollAnimations_callback b doc e)"
    using Cons.prems by simp
  from Cons.IH [of "ScrollAnimations_callback b doc", OF this] eq
  show ?case by (simp add: observer_run_def)
qed

lemma observer_run_superset: "set (doc e) \<subseteq> set (observer_run batches doc e)"
proof (induction batches arbitrary: doc)
  case Nil
  show ?case by (simp add: observer_run_def)
next
  case (Cons b bs)
  have "set (doc e) \<subseteq> set (ScrollAnimations_callback b doc e)" by (rule callback_superset)
  also have "\<dots> \<subseteq> set (observer_run bs (ScrollAnimations_callback b doc) e)" by (rule Cons.IH)
  finally show ?case by (simp add: observer_run_def)
qed

lemma observer_run_distinct:
  "distinct (doc e) \<Longrightarrow> distinct (observer_run batches doc e)"
proof (induction batches arbitrary: doc)
  case Nil
  then show ?case by (simp add: observer_run_def)
next
  case (Cons b bs)
  have "distinct (ScrollAnimations_callback b doc e)"
    using Cons.prems by (rule callback_distinct)
  from Cons.IH [of "ScrollAnimations_callback b doc", OF this]
  show ?case by (simp add: observer_run_def)
qed

lemma observer_run_marks:
  "b \<in> set batches \<Longrightarrow> x \<in> set b \<Longrightarrow> target x = e \<Longrightarrow> isIntersecting x
     \<Longrightarrow> ''fade-in'' \<in> set (observer_run batches doc e)"
proof (induction batches arbitrary: doc)
  case Nil
  then show ?case by simp
next
  case (Cons c cs)
  show ?case
  proof (cases "b = c")
    case True
    with Cons.prems have "''fade-in'' \<in> set (ScrollAnimations_callback c doc e)"
      by (simp add: callback_marks)
    with observer_run_superset [of "ScrollAnimations_callback c doc" e cs]
    show ?thesis by (auto simp: observer_run_def)
  next
    case False
    with Cons.prems have "b \<in> set cs" by simp
    from Cons.IH [OF this Cons.prems(2,3,4)]
    show ?thesis by (simp add: observer_run_def)
  qed
qed

text \<open>
  C6. Once an element carries the marker class \<^verbatim>\<open>fade-in\<close>, no later batch of
  intersection entries changes its class list: the class stays, whatever enters or
  leaves the viewport afterwards. No batch removes any class, the class list never
  holds the marker twice, and an intersecting entry for the element marks it.
\<close>

theorem C6_reveal_is_permanent:
  "(''fade-in'' \<in> set (observer_run bs1 doc e)
      \<longrightarrow> observer_run (bs1 @ bs2) doc e = observer_run bs1 doc e) \<and>
   (''fade-in'' \<in> set (observer_run bs1 doc e)
      \<longrightarrow> ''fade-in'' \<in> set (observer_run (bs1 @ bs2) doc e)) \<and>
   set (observer_run bs1 doc e) \<subseteq> set (observer_run (bs1 @ bs2) doc e) \<and>
   (distinct (doc e) \<longrightarrow> distinct (observer_run bs1 doc e)) \<and>
   ((\<exists>b \<in> set bs1. \<exists>x \<in> set b. target x = e \<and> isIntersecting x)
      \<longrightarrow> ''fade-in'' \<in> set (observer_run (bs1 @ bs2) doc e))"
proof (intro conjI impI)
  assume m: "''fade-in'' \<in> set (observer_run bs1 doc e)"
  then show eq: "observer_run (bs1 @ bs2) doc e = observer_run bs1 doc e"
    by (simp add: observer_run_append observer_run_marked)
  from m show "''fade-in'' \<in> set (observer_run (bs1 @ bs2) doc e)"
    by (simp add: eq)
next
  show "set (observer_run bs1 doc e) \<subseteq> set (observer_run (bs1 @ bs2) doc e)"
    by (simp add: observer_run_append observer_run_superset)
next
  assume "distinct (doc e)"
  then show "distinct (observer_run bs1 doc e)" by (rule observer_run_distinct)
next
  assume "\<exists>b \<in> set bs1. \<exists>x \<in> set b. target x = e \<and> isIntersecting x"
  then obtain b x where "b \<in> set bs1" "x \<in> set b" "target x = e" "isIntersecting x"
    by blast
  then have "''fade-in'' \<in> set (observer_run bs1 doc e)" by (rule observer_run_marks)
  with observer_run_superset [of "observer_run bs1 doc" e bs2]
  show "''fade-in'' \<in> set (observer_run (bs1 @ bs2) doc e)"
    by (auto simp: observer_run_append)
qed

theorem C6_reveal_is_permanent_witness:
  "observer_run ([[\<lparr>target = 2, isIntersecting = True\<rparr>]] @
                 [[\<lparr>target = 2, isIntersecting = False\<rparr>], [\<lparr>target = 2, isIntersecting = True\<rparr>]])
     (\<lambda>e. [''section'']) 2 = [''section'', ''fade-in'']"
proof -
  let ?b1 = "[[\<lparr>target = 2, isIntersecting = True\<rparr>]]"
  let ?b2 = "[[\<lparr>target = 2, isIntersecting = False\<rparr>], [\<lparr>target = 2, isIntersecting = True\<rparr>]]"
  have one: "observer_run ?b1 (\<lambda>e. [''section'']) 2 = [''section'', ''fade-in'']"
    by (simp add: observer_run_def ScrollAnimations_callback_def reveal_entry_def
          classList_add_def)
  then have "''fade-in'' \<in> set (observer_run ?b1 (\<lambda>e. [''section'']) 2)" by simp
  with C6_reveal_is_permanent [of ?b1 "\<lambda>e. [''section'']" 2 ?b2] one
  show ?thesis by simp
qed



section \<open>Properties: link clicks\<close>

text \<open>
  C7. A click on a link whose \<^verbatim>\<open>href\<close> selects an element of the page prevents the
  default navigation, asks for one smooth scroll to the element's \<^verbatim>\<open>offsetTop\<close> minus
  80, and leaves the menu without the class \<^verbatim>\<open>active\<close>.
\<close>

theorem C7_link_click:
  assumes "querySelector h = Inr (Some t)"
  shows "setupLinks_listener querySelector (Some h) p =
           (p\<lparr>nav_defaultPrevented := True,
              scrollTo_calls := scrollTo_calls p @
                 [\<lparr>scroll_top = offsetTop t - 80, behavior = ''smooth''\<rparr>],
              menu_classList := classList_remove ''active'' (menu_classList p)\<rparr>, None) \<and>
         ''active'' \<notin> set (menu_classList (fst (setupLinks_listener querySelector (Some h) p)))"
  using assms by (simp add: setupLinks_listener_def classList_remove_def Let_def)

theorem C7_link_click_witness:
  "setupLinks_listener (\<lambda>sel. if sel = ''#about'' then Inr (Some \<lparr>offsetTop = 640\<rparr>) else Inr None)
     (Some ''#about'')
     (setupToggle_listener
        \<lparr>nav_defaultPrevented = False, scrollTo_calls = [], menu_classList = [''nav-menu'']\<rparr>)
   = (\<lparr>nav_defaultPrevented = True,
       scrollTo_calls = [\<lparr>scroll_top = 560, behavior = ''smooth''\<rparr>],
       menu_classList = [''nav-menu'']\<rparr>, None)"
proof -
  let ?qs = "\<lambda>sel. if sel = ''#about'' then Inr (Some \<lparr>offsetTop = 640\<rparr>) else Inr None"
  have h: "?qs ''#about'' = Inr (Some \<lparr>offsetTop = 640\<rparr>)" by simp
  show ?thesis
    using C7_link_click [of ?qs "''#about''" "\<lparr>offsetTop = 640\<rparr>", OF h]
    by (simp add: setupToggle_listener_def classList_toggle_def classList_add_def
          classList_remove_def)
qed



section \<open>Properties: contact form\<close>

lemma run_until_none:
  "timers p = [] \<Longrightarrow> run_until T p = p\<lparr>now := max (now p) T\<rparr>"
  by (subst run_until.simps) simp

lemma run_until_one_wait:
  "timers p = [t] \<Longrightarrow> T < due t \<Longrightarrow> run_until T p = p\<lparr>now := max (now p) T\<rparr>"
  by (subst run_until.simps) simp

lemma run_until_one_fire:
  "timers p = [t] \<Longrightarrow> due t \<le> T \<Longrightarrow>
     run_until T p = run_until T (fire (action t) (p\<lparr>now := max (now p) (due t), timers := []\<rparr>))"
  by (subst run_until.simps) simp

lemma handleSubmit_ok:
  assumes "name_field p = Some n" "email_field p = Some e" "message_field p = Some m"
  shows "handleSubmit p =
     (p\<lparr>form_defaultPrevented := True,
        console := console p @
          [(''Form submitted:'', \<lparr>fd_name = val n, fd_email = val e, fd_message = val m\<rparr>)],
        form_children := form_children p @
          [createMessageDiv (next_id p) ''Thank you! Your message has been sent.'' ''success''],
        next_id := Suc (next_id p),
        timers := timers p @ [\<lparr>due = now p + 3000, action = FadeOut (next_id p)\<rparr>],
        name_field := Some (n\<lparr>val := defaultValue n\<rparr>),
        email_field := Some (e\<lparr>val := defaultValue e\<rparr>),
        message_field := Some (m\<lparr>val := defaultValue m\<rparr>)\<rparr>, None)"
  using assms
  by (simp add: handleSubmit_def showMessage_def setTimeout_def form_reset_def Let_def
        createMessageDiv_def)

text \<open>The page after the submission, once the clock has reached \<open>T\<close>.\<close>

lemma submitted_run_until:
  assumes q: "timers q = [\<lparr>due = t0 + 3000, action = FadeOut k\<rparr>]"
    and c: "form_children q = [b]" and k: "div_id b = k" and n: "now q = t0"
  shows "run_until T q =
     (if T < t0 + 3000 then q\<lparr>now := max t0 T\<rparr>
      else if T < t0 + 3300
        then q\<lparr>now := T, timers := [\<lparr>due = t0 + 3300, action = Remove k\<rparr>],
               form_children := [b\<lparr>animation := ''fadeOut 0.3s ease''\<rparr>]\<rparr>
        else q\<lparr>now := T, timers := [], form_children := []\<rparr>)"
proof (cases "T < t0 + 3000")
  case True
  then show ?thesis
    using run_until_one_wait [OF q, of T] n by simp
next
  case False
  define q1 where "q1 = fire (FadeOut k) (q\<lparr>now := max (now q) (t0 + 3000), timers := []\<rparr>)"
  have q1: "q1 = q\<lparr>now := t0 + 3000, timers := [\<lparr>due = t0 + 3300, action = Remove k\<rparr>],
                   form_children := [b\<lparr>animation := ''fadeOut 0.3s ease''\<rparr>]\<rparr>"
    by (simp add: q1_def setTimeout_def c k n)
  have s1: "run_until T q = run_until T q1"
    using run_until_one_fire [OF q, of T] False by (simp add: q1_def)
  show ?thesis
  proof (cases "T < t0 + 3300")
    case True
    have "run_until T q1 = q1\<lparr>now := max (now q1) T\<rparr>"
      by (rule run_until_one_wait [of _ "\<lparr>due = t0 + 3300, action = Remove k\<rparr>"])
         (simp_all add: q1 True)
    with s1 True False show ?thesis by (simp add: q1 max_def)
  next
    case False2: False
    define q2 where "q2 = fire (Remove k) (q1\<lparr>now := max (now q1) (t0 + 3300), timers := []\<rparr>)"
    have q2: "q2 = q\<lparr>now := t0 + 3300, timers := [], form_children := []\<rparr>"
      by (simp add: q2_def q1 k)
    have "run_until T q1 = run_until T q2"
      using run_until_one_fire [of q1 "\<lparr>due = t0 + 3300, action = Remove k\<rparr>" T] False2
      by (simp add: q1 q2_def)
    also have "\<dots> = q2\<lparr>now := max (now q2) T\<rparr>"
      by (rule run_until_none) (simp add: q2)
    finally show ?thesis using s1 False False2 by (simp add: q2 max_def)
  qed
qed


text \<open>
  C3, as stated: the form fields are reset after the banner's display period. It fails:
  \<^verbatim>\<open>handleSubmit\<close> resets the form in the same call that shows the banner. For the
  submission of name "A", email "b@x.com", message "hi" at time 0, the state the handler
  leaves at time 0 has the three fields back at their (empty) defaults while the banner
  is displayed and its 3000-unit timer is still pending.
\<close>

theorem C3_counterexample:
  "(let q = fst (handleSubmit
        \<lparr>now = 0,
         name_field = Some \<lparr>val = ''A'', defaultValue = []\<rparr>,
         email_field = Some \<lparr>val = ''b@x.com'', defaultValue = []\<rparr>,
         message_field = Some \<lparr>val = ''hi'', defaultValue = []\<rparr>,
         form_children = [], console = [], requests = [], timers = [],
         form_defaultPrevented = False, next_id = 0\<rparr>)
    in now q = 0 \<and>
       map (map_option val) [name_field q, email_field q, message_field q]
         = [Some [], Some [], Some []] \<and>
       map animation (form_children q) = [''fadeIn 0.3s ease''] \<and>
       timers q = [\<lparr>due = 3000, action = FadeOut 0\<rparr>])"
  by (simp add: handleSubmit_def showMessage_def setTimeout_def form_reset_def Let_def
        createMessageDiv_def)

text \<open>
  C3, amended: on a form with its three controls, no earlier message element and no
  pending timer, a submission prevents the default navigation, writes the three values to
  the console and nowhere else, appends exactly one success banner and resets the three
  controls to their defaults, all at submission time. The banner is displayed unchanged
  for 3000 time units, fades from 3000 to 3300 and is removed at 3300; the controls stay
  reset and nothing else is logged or sent meanwhile.
\<close>

theorem C3_submit:
  assumes "name_field p = Some n" and "email_field p = Some e" and "message_field p = Some m"
    and "form_children p = []" and "timers p = []"
  shows "snd (handleSubmit p) = None \<and>
     form_defaultPrevented (fst (handleSubmit p)) \<and>
     console (fst (handleSubmit p)) = console p @
       [(''Form submitted:'', \<lparr>fd_name = val n, fd_email = val e, fd_message = val m\<rparr>)] \<and>
     requests (fst (handleSubmit p)) = requests p \<and>
     now (fst (handleSubmit p)) = now p \<and>
     name_field (fst (handleSubmit p)) = Some (n\<lparr>val := defaultValue n\<rparr>) \<and>
     email_field (fst (handleSubmit p)) = Some (e\<lparr>val := defaultValue e\<rparr>) \<and>
     message_field (fst (handleSubmit p)) = Some (m\<lparr>val := defaultValue m\<rparr>) \<and>
     form_children (fst (handleSubmit p)) =
       [createMessageDiv (next_id p) ''Thank you! Your message has been sent.'' ''success''] \<and>
     timers (fst (handleSubmit p)) = [\<lparr>due = now p + 3000, action = FadeOut (next_id p)\<rparr>] \<and>
     form_children (run_until T (fst (handleSubmit p))) =
       (if T < now p + 3000
        then [createMessageDiv (next_id p) ''Thank you! Your message has been sent.'' ''success'']
        else if T < now p + 3300
        then [(createMessageDiv (next_id p) ''Thank you! Your message has been sent.'' ''success'')
                \<lparr>animation := ''fadeOut 0.3s ease''\<rparr>]
        else []) \<and>
     name_field (run_until T (fst (handleSubmit p))) = Some (n\<lparr>val := defaultValue n\<rparr>) \<and>
     email_field (run_until T (fst (handleSubmit p))) = Some (e\<lparr>val := defaultValue e\<rparr>) \<and>
     message_field (run_until T (fst (handleSubmit p))) = Some (m\<lparr>val := defaultValue m\<rparr>) \<and>
     console (run_until T (fst (handleSubmit p))) = console (fst (handleSubmit p)) \<and>
     requests (run_until T (fst (handleSubmit p))) = requests p"
proof -
  let ?b = "createMessageDiv (next_id p) ''Thank you! Your message has been sent.'' ''success''"
  define q where "q = fst (handleSubmit p)"
  have q: "q = p\<lparr>form_defaultPrevented := True,
        console := console p @
          [(''Form submitted:'', \<lparr>fd_name = val n, fd_email = val e, fd_message = val m\<rparr>)],
        form_children := [?b],
        next_id := Suc (next_id p),
        timers := [\<lparr>due = now p + 3000, action = FadeOut (next_id p)\<rparr>],
        name_field := Some (n\<lparr>val := defaultValue n\<rparr>),
        email_field := Some (e\<lparr>val := defaultValue e\<rparr>),
        message_field := Some (m\<lparr>val := defaultValue m\<rparr>)\<rparr>"
    unfolding q_def using assms(4,5) by (simp add: handleSubmit_ok [OF assms(1-3)])
  have ok: "snd (handleSubmit p) = None"
    by (simp add: handleSubmit_ok [OF assms(1-3)])
  have r: "run_until T q =
     (if T < now p + 3000 then q\<lparr>now := max (now p) T\<rparr>
      else if T < now p + 3300
        then q\<lparr>now := T, timers := [\<lparr>due = now p + 3300, action = Remove (next_id p)\<rparr>],
               form_children := [?b\<lparr>animation := ''fadeOut 0.3s ease''\<rparr>]\<rparr>
        else q\<lparr>now := T, timers := [], form_children := []\<rparr>)"
    by (rule submitted_run_until) (simp_all add: q createMessageDiv_def)
  show ?thesis
    unfolding q_def [symmetric] r using ok by (simp add: q)
qed

theorem C3_submit_witness:
  "(let q = fst (handleSubmit
        \<lparr>now = 0,
         name_field = Some \<lparr>val = ''A'', defaultValue = []\<rparr>,
         email_field = Some \<lparr>val = ''b@x.com'', defaultValue = []\<rparr>,
         message_field = Some \<lparr>val = ''hi'', defaultValue = []\<rparr>,
         form_children = [], console = [], requests = [], timers = [],
         form_defaultPrevented = False, next_id = 0\<rparr>)
    in form_defaultPrevented q \<and>
       console q = [(''Form submitted:'',
                     \<lparr>fd_name = ''A'', fd_email = ''b@x.com'', fd_message = ''hi''\<rparr>)] \<and>
       requests q = [] \<and>
       map (map_option val) [name_field q, email_field q, message_field q]
         = [Some [], Some [], Some []] \<and>
       map textContent (form_children q) = [''Thank you! Your message has been sent.''] \<and>
       map animation (form_children (run_until 2999 q)) = [''fadeIn 0.3s ease''] \<and>
       map animation (form_children (run_until 3000 q)) = [''fadeOut 0.3s ease''] \<and>
       map animation (form_children (run_until 3299 q)) = [''fadeOut 0.3s ease''] \<and>
       form_children (run_until 3300 q) = [])"
proof -
  let ?n = "\<lparr>val = ''A'', defaultValue = []\<rparr>"
  let ?e = "\<lparr>val = ''b@x.com'', defaultValue = []\<rparr>"
  let ?m = "\<lparr>val = ''hi'', defaultValue = []\<rparr>"
  let ?p = "\<lparr>now = 0, name_field = Some ?n, email_field = Some ?e, message_field = Some ?m,
         form_children = [], console = [], requests = [], timers = [],
         form_defaultPrevented = False, next_id = 0\<rparr>"
  note w = C3_submit [of ?p ?n ?e ?m]
  show ?thesis
    using w [of 2999] w [of 3000] w [of 3299] w [of 3300]
    by (simp add: Let_def createMessageDiv_def)
qed

section \<open>Properties: easing\<close>

lemma round_half_even_int: "round_half_even (of_int n) = n"
  by (simp add: round_half_even_def)

lemma to_double_dyadic:
  assumes m: "\<bar>m\<bar> < 2 ^ 53" and k: "- 1074 \<le> k"
  shows "to_double (of_int m * 2 powr (of_int k)) = of_int m * 2 powr (of_int k)"
proof (cases "m = 0")
  case True
  then show ?thesis by (simp add: to_double_def)
next
  case False
  define x :: real where "x = of_int m * 2 powr (of_int k)"
  define e where "e = max (\<lfloor>log 2 \<bar>x\<bar>\<rfloor> - 52) (- 1074)"
  have x0: "x \<noteq> 0" using False by (simp add: x_def)
  have ax: "\<bar>x\<bar> = of_int \<bar>m\<bar> * 2 powr (of_int k)"
    by (simp add: x_def abs_mult)
  have "of_int \<bar>m\<bar> < (2::real) ^ 53"
    using m by (metis of_int_less_iff of_int_numeral of_int_power)
  then have "of_int \<bar>m\<bar> < (2::real) powr 53"
    by simp
  then have "\<bar>x\<bar> < 2 powr 53 * 2 powr (of_int k)"
    unfolding ax by (simp add: mult_strict_right_mono)
  then have lt: "\<bar>x\<bar> < 2 powr (53 + of_int k)"
    by (simp add: powr_add)
  have "log 2 \<bar>x\<bar> < 53 + of_int k"
    using lt x0 by (simp add: log_less_iff)
  then have "\<lfloor>log 2 \<bar>x\<bar>\<rfloor> < 53 + k"
    by linarith
  with k have ek: "e \<le> k" by (simp add: e_def)
  define n where "n = nat (k - e)"
  have kn: "k = e + int n" using ek by (simp add: n_def)
  have "x / 2 powr (of_int e) = of_int m * 2 powr (of_int (int n))"
    unfolding x_def kn by (simp add: powr_add)
  also have "\<dots> = of_int (m * 2 ^ n)"
    by (simp add: powr_realpow)
  finally have q: "x / 2 powr (of_int e) = of_int (m * 2 ^ n)" .
  have "to_double x = 2 powr (of_int e) * of_int (round_half_even (x / 2 powr (of_int e)))"
    using x0 by (simp add: to_double_def e_def Let_def)
  also have "\<dots> = 2 powr (of_int e) * of_int (m * 2 ^ n)"
    unfolding q round_half_even_int ..
  also have "\<dots> = 2 powr (of_int e) * (x / 2 powr (of_int e))"
    unfolding q ..
  also have "\<dots> = x" by simp
  finally show ?thesis unfolding x_def .
qed

lemma is_double_up:
  assumes "\<bar>m\<bar> < 2 ^ 53" and "\<bar>real_of_int m\<bar> * 2 ^ n < 2 ^ 1024"
  shows "is_double (of_int m * 2 ^ n)"
proof -
  have e: "of_int m * (2::real) ^ n = of_int m * 2 powr (of_int (int n))"
    by (simp add: powr_realpow)
  have "to_double (of_int m * 2 ^ n) = of_int m * 2 ^ n"
    unfolding e by (rule to_double_dyadic [OF assms(1)]) simp
  then show ?thesis
    using assms(2) by (simp add: is_double_def fl_def abs_mult)
qed

lemma is_double_down:
  assumes "\<bar>m\<bar> < 2 ^ 53" and "n \<le> 1074"
  shows "is_double (of_int m / 2 ^ n)"
proof -
  have e: "of_int m / (2::real) ^ n = of_int m * 2 powr (of_int (- int n))"
    by (simp add: powr_minus powr_realpow divide_inverse)
  have t: "to_double (of_int m / 2 ^ n) = of_int m / 2 ^ n"
    unfolding e by (rule to_double_dyadic [OF assms(1)]) (use assms(2) in simp)
  have "\<bar>real_of_int m\<bar> < 2 ^ 53"
    using assms(1) by (metis of_int_abs of_int_less_iff of_int_numeral of_int_power)
  moreover have "\<bar>real_of_int m / 2 ^ n\<bar> \<le> \<bar>real_of_int m\<bar>"
  proof -
    have "(1::real) \<le> 2 ^ n" by simp
    then have "\<bar>real_of_int m\<bar> * 1 \<le> \<bar>real_of_int m\<bar> * 2 ^ n"
      by (intro mult_left_mono) simp_all
    then show ?thesis by (simp add: abs_divide field_simps)
  qed
  moreover have "(2::real) ^ 53 < 2 ^ 1024" by simp
  ultimately have "\<bar>real_of_int m / 2 ^ n\<bar> < 2 ^ 1024"
    by linarith
  with t show ?thesis by (simp add: is_double_def fl_def)
qed








text \<open>
  Where an operation does round, the model rounds as the doubles do: \<open>1/5\<close> is not a
  double, and \<^verbatim>\<open>ease(100, 0, 1, 1000)\<close> is \<open>1441151880758559 / 2\<^sup>5\<^sup>6\<close> (printed
  \<^verbatim>\<open>0.020000000000000004\<close>), not \<open>1/50\<close>.
\<close>

lemma powr_neg_nat: "(2::real) powr (of_int (- int k)) = 1 / 2 ^ k"
  by (simp add: powr_minus powr_realpow divide_inverse)

lemma to_double_below_one:
  assumes lo: "1 / 2 ^ n \<le> \<bar>x\<bar>" and hi: "\<bar>x\<bar> < 2 / 2 ^ n" and n: "n \<le> 1022"
  shows "to_double x = of_int (round_half_even (x * 2 ^ (n + 52))) / 2 ^ (n + 52)"
proof -
  have x0: "x \<noteq> 0"
  proof
    assume "x = 0"
    with lo have "1 / (2::real) ^ n \<le> 0" by simp
    moreover have "0 < 1 / (2::real) ^ n" by simp
    ultimately show False by linarith
  qed
  have p: "(2::real) powr (of_int (- int n)) = 1 / 2 ^ n"
    by (rule powr_neg_nat)
  have "2 powr (of_int (- int n)) \<le> \<bar>x\<bar>" using lo by (simp only: p)
  then have a: "of_int (- int n) \<le> log 2 \<bar>x\<bar>"
    using x0 by (simp add: le_log_iff)
  have "(2::real) powr (of_int (- int n) + 1) = 2 powr (of_int (- int n)) * 2 powr 1"
    by (rule powr_add)
  then have "(2::real) powr (of_int (- int n) + 1) = 2 / 2 ^ n"
    by (simp only: p) simp
  with hi have "\<bar>x\<bar> < 2 powr (of_int (- int n) + 1)" by simp
  then have b: "log 2 \<bar>x\<bar> < of_int (- int n) + 1"
    using x0 by (simp add: log_less_iff)
  have fl: "\<lfloor>log 2 \<bar>x\<bar>\<rfloor> = - int n"
    using a b by (simp add: floor_eq_iff)
  have e: "max (\<lfloor>log 2 \<bar>x\<bar>\<rfloor> - 52) (- 1074) = - int (n + 52)"
    using n by (simp add: fl)
  have q: "(2::real) powr (of_int (- int (n + 52))) = 1 / 2 ^ (n + 52)"
    by (rule powr_neg_nat)
  have "to_double x =
          (let e = max (\<lfloor>log 2 \<bar>x\<bar>\<rfloor> - 52) (- 1074); q = 2 powr (of_int e)
           in q * of_int (round_half_even (x / q)))"
    using x0 by (simp only: to_double_def if_False)
  also have "\<dots> = 2 powr (of_int (- int (n + 52))) *
                   of_int (round_half_even (x / 2 powr (of_int (- int (n + 52)))))"
    by (simp only: Let_def e)
  also have "\<dots> = (1 / 2 ^ (n + 52)) * of_int (round_half_even (x / (1 / 2 ^ (n + 52))))"
    by (simp only: q)
  also have "\<dots> = of_int (round_half_even (x * 2 ^ (n + 52))) / 2 ^ (n + 52)"
    by simp
  finally show ?thesis .
qed

lemma round_fifth: "fl (1 / 5) = Some (3602879701896397 / 2 ^ 54)"
proof -
  have "to_double (1 / 5) = of_int (round_half_even ((1 / 5) * 2 ^ (3 + 52))) / 2 ^ (3 + 52)"
    by (rule to_double_below_one) simp_all
  also have "round_half_even ((1 / 5) * 2 ^ (3 + 52)) = 7205759403792794"
    by (simp add: round_half_even_def Let_def)
  finally show ?thesis by (simp add: fl_def)
qed


lemma round_product:
  "fl (3602879701896397 / 2 ^ 55 * (3602879701896397 / 2 ^ 54)) = Some (1441151880758559 / 2 ^ 56)"
proof -
  let ?x = "3602879701896397 / 2 ^ 55 * (3602879701896397 / 2 ^ 54) :: real"
  have "to_double ?x = of_int (round_half_even (?x * 2 ^ (6 + 52))) / 2 ^ (6 + 52)"
    by (rule to_double_below_one) simp_all
  also have "round_half_even (?x * 2 ^ (6 + 52)) = 5764607523034236"
    by (simp add: round_half_even_def Let_def)
  finally show ?thesis by (simp add: fl_def)
qed

lemma ease_rounds: "ease 100 0 1 1000 = Some (1441151880758559 / 2 ^ 56)"
proof -
  have h: "num_div 1000 2 = Some 500"
    using is_double_up [of 500 0] by (simp add: num_div_def is_double_def)
  have t1: "num_div 100 500 = Some (3602879701896397 / 2 ^ 54)"
    using round_fifth by (simp add: num_div_def)
  have k: "num_div 1 2 = Some (1 / 2)"
    using is_double_down [of 1 1] by (simp add: num_div_def is_double_def)
  have m1: "num_mul (1 / 2) (3602879701896397 / 2 ^ 54) = Some (3602879701896397 / 2 ^ 55)"
    using is_double_down [of 3602879701896397 55] by (simp add: num_mul_def is_double_def)
  have m2: "num_mul (3602879701896397 / 2 ^ 55) (3602879701896397 / 2 ^ 54)
              = Some (1441151880758559 / 2 ^ 56)"
    using round_product by (simp add: num_mul_def)
  have r: "num_add (1441151880758559 / 2 ^ 56) 0 = Some (1441151880758559 / 2 ^ 56)"
    using is_double_down [of 1441151880758559 56] by (simp add: num_add_def is_double_def)
  have lt: "(3602879701896397 / 2 ^ 54 :: real) < 1" by simp
  show ?thesis
    unfolding ease_def h t1 bind.bind_lunit if_P [OF lt] k m1 m2 r ..
qed

end
